theory Spec2Isabelle
  imports Main "HOL-Library.Sublist"
begin

section \<open>The protected router of api-beer\<close>

text \<open>
  The development embeds \<^verbatim>\<open>src/server/trpc/routers/protected.ts\<close>: the procedures
  of \<^verbatim>\<open>protectedRouter\<close> that read and write projects, teams and APIs through the
  Prisma client. Every procedure is a function of the store, the user of the session and the
  input as it arrives; it returns the outcome together with the store it leaves behind. A
  thrown error is the left summand of the outcome.

  Prisma enums are strings at run time (the source calls \<^verbatim>\<open>toLowerCase\<close> on one and
  passes them to \<^verbatim>\<open>Array.includes\<close>), so enum values are strings here, with one
  constant for every member the source names.
\<close>

subsection \<open>Enumerations\<close>

definition Role_Owner :: string where
  "Role_Owner = ''Owner''"

definition Role_Maintainer :: string where
  "Role_Maintainer = ''Maintainer''"

text \<open>
  Modelled from the spec: the declaration of the enum \<^verbatim>\<open>Role\<close> is in the Prisma
  schema, which is not among the sources. The source names the members Owner and Maintainer;
  the third member, Member, is the spec's (section 3, "Role").
\<close>

definition Role_Member :: string where
  "Role_Member = ''Member''"

text \<open>
  The values of \<^verbatim>\<open>$Enums.ProjectVisibility\<close>, as \<^verbatim>\<open>projectList\<close> spells
  them in its own schema.
\<close>

definition ProjectVisibility :: "string list" where
  "ProjectVisibility = [''PUBLIC'', ''PRIVATE'']"

text \<open>
  The enums \<^verbatim>\<open>ApiMethod\<close> and \<^verbatim>\<open>ApiStatus\<close> are declared in the Prisma
  schema too and the source names none of their members: the lists of their values are
  parameters of \<^verbatim>\<open>apiCreate\<close>.
\<close>

record Enums =
  ApiMethod :: "string list"
  ApiStatus :: "string list"

subsection \<open>Rows and the store\<close>

record User =
  id :: string

record Project =
  id :: string
  name :: string
  description :: string
  teamId :: string
  visibility :: string

record ProjectMember =
  userId :: string
  projectId :: string
  role :: string

record Team =
  id :: string
  name :: string
  description :: "string option"

record TeamMember =
  userId :: string
  teamId :: string
  role :: string

text \<open>A JSON object, as a list of keys with their serialised values.\<close>

type_synonym json_object = "(string \<times> string) list"

record Api =
  id :: string
  name :: "string option"
  description :: "string option"
  endpoint :: string
  "method" :: string
  params :: json_object
  body :: json_object
  headers :: json_object
  authorization :: json_object
  preRequestScript :: string
  postResponseScript :: string
  tags :: "string list"
  versions :: "string list"
  order :: int
  status :: "string option"
  projectId :: string

text \<open>
  The store holds one list of rows per model, in the order in which a query without
  \<^verbatim>\<open>orderBy\<close> visits them. \<open>queries\<close> counts the calls made to the Prisma client, so
  that "no store operation was performed" is a statement about the state. The store enforces
  no referential constraint: which ones the schema declares is not visible in the sources.
\<close>

record store =
  projects :: "Project list"
  projectMembers :: "ProjectMember list"
  teams :: "Team list"
  teamMembers :: "TeamMember list"
  apis :: "Api list"
  queries :: nat

datatype error =
    ZodError  \<comment> \<open>the input does not parse against the procedure's schema\<close>
  | Error string  \<comment> \<open>\<^verbatim>\<open>throw new Error(message)\<close>\<close>
  | PrismaRecordNotFound  \<comment> \<open>thrown by \<^verbatim>\<open>update\<close> and \<^verbatim>\<open>delete\<close> when no record matches\<close>

type_synonym 'a outcome = "(error + 'a) \<times> store"

subsection \<open>Strings\<close>

text \<open>\<^verbatim>\<open>String.prototype.toLowerCase\<close>, on the ASCII letters.\<close>

definition lower :: "char \<Rightarrow> char" where
  "lower c = (let n = of_char c :: nat in if 65 \<le> n \<and> n \<le> 90 then char_of (n + 32) else c)"

definition toLowerCase :: "string \<Rightarrow> string" where
  "toLowerCase s = map lower s"

text \<open>
  The lower-case form of a string, read off the table of the letters: what "the lowercase
  form" of a visibility means, written without the arithmetic of \<open>lower\<close>, to compare
  \<open>toLowerCase\<close> with.
\<close>

definition lowercase_letter :: "char \<Rightarrow> char" where
  "lowercase_letter c =
     (case map_of (zip ''ABCDEFGHIJKLMNOPQRSTUVWXYZ'' ''abcdefghijklmnopqrstuvwxyz'') c of
        None \<Rightarrow> c | Some d \<Rightarrow> d)"

definition lowercase_form :: "string \<Rightarrow> string" where
  "lowercase_form s = map lowercase_letter s"

text \<open>
  The pattern matching of \<^verbatim>\<open>LIKE\<close>: in the pattern \<open>%\<close> stands for any run of
  characters and \<open>_\<close> for any one character; every other character stands for itself.
\<close>

fun like :: "string \<Rightarrow> string \<Rightarrow> bool" where
  "like [] [] = True"
| "like [] (c # cs) = False"
| "like (p # ps) [] = (p = CHR ''%'' \<and> like ps [])"
| "like (p # ps) (c # cs) =
     (if p = CHR ''%'' then like ps (c # cs) \<or> like (p # ps) cs
      else (p = CHR ''_'' \<or> p = c) \<and> like ps cs)"

text \<open>
  The filter \<^verbatim>\<open>{ contains: sub }\<close> on a column with value \<open>s\<close>: the client sends
  \<open>sub\<close> between two \<open>%\<close> as a \<^verbatim>\<open>LIKE\<close> pattern and does not escape it, so a
  \<open>%\<close> or \<open>_\<close> inside \<open>sub\<close> is a wildcard too.
\<close>

definition contains :: "string \<Rightarrow> string \<Rightarrow> bool" where
  "contains s sub = like (''%'' @ sub @ ''%'') s"

text \<open>\<^verbatim>\<open>z.string().min(lo).max(hi)\<close>.\<close>

definition min_max :: "nat \<Rightarrow> nat \<Rightarrow> string \<Rightarrow> bool" where
  "min_max lo hi s = (lo \<le> length s \<and> length s \<le> hi)"

text \<open>\<^verbatim>\<open>z.nativeEnum(E)\<close> and \<^verbatim>\<open>z.enum(E)\<close>.\<close>

definition nativeEnum :: "string list \<Rightarrow> string \<Rightarrow> bool" where
  "nativeEnum E s = (s \<in> set E)"

text \<open>\<^verbatim>\<open>schema.optional()\<close>.\<close>

definition optional :: "('a \<Rightarrow> bool) \<Rightarrow> 'a option \<Rightarrow> bool" where
  "optional schema v = (case v of None \<Rightarrow> True | Some x \<Rightarrow> schema x)"

subsection \<open>The Prisma client\<close>

definition tick :: "store \<Rightarrow> store" where
  "tick db = db\<lparr>queries := Suc (queries db)\<rparr>"

text \<open>The relation filter \<^verbatim>\<open>members: { some: { ... } }\<close> of a project and of a team.\<close>

definition project_members_some :: "store \<Rightarrow> (ProjectMember \<Rightarrow> bool) \<Rightarrow> Project \<Rightarrow> bool" where
  "project_members_some db w p =
     list_ex (\<lambda>m. ProjectMember.projectId m = Project.id p \<and> w m) (projectMembers db)"

definition team_members_some :: "store \<Rightarrow> (TeamMember \<Rightarrow> bool) \<Rightarrow> Team \<Rightarrow> bool" where
  "team_members_some db w t =
     list_ex (\<lambda>m. TeamMember.teamId m = Team.id t \<and> w m) (teamMembers db)"

text \<open>
  A filter on an optional argument: Prisma reads \<^verbatim>\<open>undefined\<close> as "no condition".
\<close>

definition where_opt :: "('a \<Rightarrow> bool) \<Rightarrow> 'a option \<Rightarrow> bool" where
  "where_opt cond v = (case v of None \<Rightarrow> True | Some x \<Rightarrow> cond x)"

text \<open>The first row that satisfies \<open>w\<close> is replaced, or removed.\<close>

fun update_first :: "('a \<Rightarrow> bool) \<Rightarrow> ('a \<Rightarrow> 'a) \<Rightarrow> 'a list \<Rightarrow> 'a list" where
  "update_first w f [] = []"
| "update_first w f (x # xs) = (if w x then f x # xs else x # update_first w f xs)"

fun delete_first :: "('a \<Rightarrow> bool) \<Rightarrow> 'a list \<Rightarrow> 'a list" where
  "delete_first w [] = []"
| "delete_first w (x # xs) = (if w x then xs else x # delete_first w xs)"

definition project_findMany :: "store \<Rightarrow> (Project \<Rightarrow> bool) \<Rightarrow> Project list \<times> store" where
  "project_findMany db w = (filter w (projects db), tick db)"

definition project_findFirst :: "store \<Rightarrow> (Project \<Rightarrow> bool) \<Rightarrow> Project option \<times> store" where
  "project_findFirst db w = (find w (projects db), tick db)"

text \<open>
  \<^verbatim>\<open>project.create\<close> with the nested \<^verbatim>\<open>members: { create: ... }\<close>: one call, which
  writes the project and its member rows together.
\<close>

definition project_create :: "store \<Rightarrow> Project \<Rightarrow> ProjectMember list \<Rightarrow> Project \<times> store" where
  "project_create db p ms =
     (p, tick (db\<lparr>projects := projects db @ [p], projectMembers := projectMembers db @ ms\<rparr>))"

text \<open>
  \<^verbatim>\<open>project.update\<close> and \<^verbatim>\<open>project.delete\<close> resolve to the record they wrote and
  throw when no record satisfies \<^verbatim>\<open>where\<close>. A delete that finds its record removes that
  row and leaves the rows of the other tables as they are: what the referential actions of
  the schema do with them is not visible in the sources, and the statements below are about
  deletes that find no record.
\<close>

definition project_update ::
  "store \<Rightarrow> (Project \<Rightarrow> bool) \<Rightarrow> (Project \<Rightarrow> Project) \<Rightarrow> (error + Project) \<times> store" where
  "project_update db w f =
     (case find w (projects db) of
        None \<Rightarrow> (Inl PrismaRecordNotFound, tick db)
      | Some p \<Rightarrow> (Inr (f p), tick (db\<lparr>projects := update_first w f (projects db)\<rparr>)))"

definition project_delete :: "store \<Rightarrow> (Project \<Rightarrow> bool) \<Rightarrow> (error + Project) \<times> store" where
  "project_delete db w =
     (case find w (projects db) of
        None \<Rightarrow> (Inl PrismaRecordNotFound, tick db)
      | Some p \<Rightarrow> (Inr p, tick (db\<lparr>projects := delete_first w (projects db)\<rparr>)))"

definition team_findMany :: "store \<Rightarrow> (Team \<Rightarrow> bool) \<Rightarrow> Team list \<times> store" where
  "team_findMany db w = (filter w (teams db), tick db)"

definition team_findFirst :: "store \<Rightarrow> (Team \<Rightarrow> bool) \<Rightarrow> Team option \<times> store" where
  "team_findFirst db w = (find w (teams db), tick db)"

definition team_create :: "store \<Rightarrow> Team \<Rightarrow> TeamMember list \<Rightarrow> Team \<times> store" where
  "team_create db t ms =
     (t, tick (db\<lparr>teams := teams db @ [t], teamMembers := teamMembers db @ ms\<rparr>))"

definition projectMember_findFirst ::
  "store \<Rightarrow> (ProjectMember \<Rightarrow> bool) \<Rightarrow> ProjectMember option \<times> store" where
  "projectMember_findFirst db w = (find w (projectMembers db), tick db)"

definition api_findMany :: "store \<Rightarrow> (Api \<Rightarrow> bool) \<Rightarrow> Api list \<times> store" where
  "api_findMany db w = (filter w (apis db), tick db)"

definition api_create :: "store \<Rightarrow> Api \<Rightarrow> Api \<times> store" where
  "api_create db a = (a, tick (db\<lparr>apis := apis db @ [a]\<rparr>))"

subsection \<open>Inputs and their schemas\<close>

text \<open>
  An input record holds what the caller sent, typed as the schema's shape; the schema decides
  whether it parses. A field the schema marks optional is an \<open>option\<close>.
\<close>

record projectList_input =
  name :: "string option"
  teamId :: string
  visibility :: "string option"

definition projectList_schema :: "projectList_input \<Rightarrow> bool" where
  "projectList_schema input =
     optional (nativeEnum [''PUBLIC'', ''PRIVATE'']) (projectList_input.visibility input)"

record projectCreate_input =
  name :: string
  description :: string
  teamId :: string
  visibility :: string

definition projectCreate_schema :: "projectCreate_input \<Rightarrow> bool" where
  "projectCreate_schema input =
     (min_max 3 50 (projectCreate_input.name input) \<and>
      min_max 3 255 (projectCreate_input.description input) \<and>
      nativeEnum ProjectVisibility (projectCreate_input.visibility input))"

text \<open>The input of \<^verbatim>\<open>projectShow\<close>, \<^verbatim>\<open>projectDelete\<close> and \<^verbatim>\<open>teamShow\<close>.\<close>

record id_input =
  id :: string

record projectUpdate_input =
  id :: string
  name :: string
  description :: string
  visibility :: string

definition projectUpdate_schema :: "projectUpdate_input \<Rightarrow> bool" where
  "projectUpdate_schema input =
     (min_max 3 50 (projectUpdate_input.name input) \<and>
      min_max 3 255 (projectUpdate_input.description input) \<and>
      nativeEnum ProjectVisibility (projectUpdate_input.visibility input))"

record teamCreate_input =
  name :: string
  description :: "string option"

definition teamCreate_schema :: "teamCreate_input \<Rightarrow> bool" where
  "teamCreate_schema input = min_max 3 50 (teamCreate_input.name input)"

record apiList_input =
  name :: "string option"
  projectId :: string

definition apiList_schema :: "apiList_input \<Rightarrow> bool" where
  "apiList_schema input = (1 \<le> length (apiList_input.projectId input))"

record apiCreate_input =
  name :: "string option"
  description :: "string option"
  endpoint :: string
  "method" :: string
  params :: json_object
  body :: json_object
  headers :: json_object
  authorization :: json_object
  preRequestScript :: string
  postResponseScript :: string
  tags :: "string list"
  versions :: "string list"
  order :: int
  status :: "string option"
  projectId :: string

definition apiCreate_schema :: "Enums \<Rightarrow> apiCreate_input \<Rightarrow> bool" where
  "apiCreate_schema E input =
     (optional (min_max 3 50) (apiCreate_input.name input) \<and>
      optional (min_max 3 255) (apiCreate_input.description input) \<and>
      nativeEnum (ApiMethod E) (apiCreate_input.method input) \<and>
      optional (nativeEnum (ApiStatus E)) (apiCreate_input.status input))"

subsection \<open>The procedures\<close>

text \<open>
  \<open>user\<close> is \<^verbatim>\<open>ctx.session.data.user\<close>: the procedures are built on
  \<^verbatim>\<open>protectedProcedure\<close>, so a caller is always there. The schema of \<^verbatim>\<open>.input\<close>
  is checked before the resolver runs. A procedure that creates a row takes the
  identifier that the store gives to the new row as \<open>newId\<close>.
\<close>

definition projectList :: "store \<Rightarrow> User \<Rightarrow> projectList_input \<Rightarrow> Project list outcome" where
  "projectList db user input =
     (if \<not> projectList_schema input then (Inl ZodError, db)
      else
        let (projects, db') = project_findMany db (\<lambda>p.
              where_opt (contains (Project.name p)) (projectList_input.name input) \<and>
              Project.teamId p = projectList_input.teamId input \<and>
              where_opt (\<lambda>v. Project.visibility p = v) (projectList_input.visibility input) \<and>
              project_members_some db (\<lambda>m. ProjectMember.userId m = User.id user) p)
        in (Inr projects, db'))"

definition projectCreate ::
  "store \<Rightarrow> string \<Rightarrow> User \<Rightarrow> projectCreate_input \<Rightarrow> Project outcome" where
  "projectCreate db newId user input =
     (if \<not> projectCreate_schema input then (Inl ZodError, db)
      else
        let (project, db') = project_create db
              \<lparr>Project.id = newId,
               name = projectCreate_input.name input,
               description = projectCreate_input.description input,
               teamId = projectCreate_input.teamId input,
               visibility = projectCreate_input.visibility input\<rparr>
              [\<lparr>ProjectMember.userId = User.id user, projectId = newId, role = Role_Owner\<rparr>]
        in (Inr project, db'))"

definition projectShow :: "store \<Rightarrow> User \<Rightarrow> id_input \<Rightarrow> Project outcome" where
  "projectShow db user input =
     (let (project, db') = project_findFirst db (\<lambda>p.
            Project.id p = id_input.id input \<and>
            project_members_some db (\<lambda>m. ProjectMember.userId m = User.id user) p)
      in case project of
           None \<Rightarrow> (Inl (Error ''Project not found''), db')
         | Some project \<Rightarrow>
             (Inr (project\<lparr>Project.visibility := toLowerCase (Project.visibility project)\<rparr>), db'))"

text \<open>
  In \<^verbatim>\<open>projectUpdate\<close> and \<^verbatim>\<open>projectDelete\<close> the test \<^verbatim>\<open>if (!existed)\<close> follows a
  call that resolves to a record, which is never falsy: when no record matches, the call
  itself has thrown.
\<close>

definition projectUpdate :: "store \<Rightarrow> User \<Rightarrow> projectUpdate_input \<Rightarrow> bool outcome" where
  "projectUpdate db user input =
     (if \<not> projectUpdate_schema input then (Inl ZodError, db)
      else
        let (existed, db') = project_update db
              (\<lambda>p. Project.id p = projectUpdate_input.id input \<and>
                    project_members_some db
                      (\<lambda>m. ProjectMember.userId m = User.id user \<and>
                            ProjectMember.role m = Role_Owner) p)
              (\<lambda>p. p\<lparr>Project.name := projectUpdate_input.name input,
                       Project.description := projectUpdate_input.description input,
                       Project.visibility := projectUpdate_input.visibility input\<rparr>)
        in case existed of
             Inl e \<Rightarrow> (Inl e, db')
           | Inr _ \<Rightarrow> (Inr True, db'))"

definition projectDelete :: "store \<Rightarrow> User \<Rightarrow> id_input \<Rightarrow> bool outcome" where
  "projectDelete db user input =
     (let (existed, db') = project_delete db
            (\<lambda>p. Project.id p = id_input.id input \<and>
                  project_members_some db
                    (\<lambda>m. ProjectMember.userId m = User.id user \<and>
                          ProjectMember.role m = Role_Owner) p)
      in case existed of
           Inl e \<Rightarrow> (Inl e, db')
         | Inr _ \<Rightarrow> (Inr True, db'))"

definition teamList :: "store \<Rightarrow> User \<Rightarrow> Team list outcome" where
  "teamList db user =
     (let (teams, db') = team_findMany db
            (team_members_some db (\<lambda>m. TeamMember.userId m = User.id user))
      in (Inr teams, db'))"

definition teamCreate :: "store \<Rightarrow> string \<Rightarrow> User \<Rightarrow> teamCreate_input \<Rightarrow> Team outcome" where
  "teamCreate db newId user input =
     (if \<not> teamCreate_schema input then (Inl ZodError, db)
      else
        let (team, db') = team_create db
              \<lparr>Team.id = newId,
               name = teamCreate_input.name input,
               description = teamCreate_input.description input\<rparr>
              [\<lparr>TeamMember.userId = User.id user, teamId = newId, role = Role_Owner\<rparr>]
        in (Inr team, db'))"

definition teamShow :: "store \<Rightarrow> User \<Rightarrow> id_input \<Rightarrow> Team outcome" where
  "teamShow db user input =
     (let (team, db') = team_findFirst db (\<lambda>t.
            Team.id t = id_input.id input \<and>
            team_members_some db (\<lambda>m. TeamMember.userId m = User.id user) t)
      in case team of
           None \<Rightarrow> (Inl (Error ''Project not found''), db')
         | Some team \<Rightarrow> (Inr team, db'))"

text \<open>
  \<^verbatim>\<open>apiList\<close> does not read the session: the line that binds \<^verbatim>\<open>user\<close> is commented
  out. The parameter is kept so that all procedures have the caller.
\<close>

definition apiList :: "store \<Rightarrow> User \<Rightarrow> apiList_input \<Rightarrow> Api list outcome" where
  "apiList db user input =
     (if \<not> apiList_schema input then (Inl ZodError, db)
      else
        let (apis, db') = api_findMany db (\<lambda>a.
              where_opt (\<lambda>sub. case Api.name a of None \<Rightarrow> False | Some n \<Rightarrow> contains n sub)
                (apiList_input.name input) \<and>
              Api.projectId a = apiList_input.projectId input)
        in (Inr apis, db'))"

text \<open>
  The permission test of \<^verbatim>\<open>apiCreate\<close>:
  \<^verbatim>\<open>[$Enums.Role.Owner, $Enums.Role.Maintainer].includes(projectMember.role)\<close>.
\<close>

definition role_includes :: "string \<Rightarrow> bool" where
  "role_includes r = (r \<in> set [Role_Owner, Role_Maintainer])"

text \<open>
  The row that \<^verbatim>\<open>data: { ...input }\<close> writes. \<^verbatim>\<open>z.object({})\<close> drops the keys it
  does not know, so the four payload objects reach the resolver empty; every other field is
  stored as it was parsed.
\<close>

definition api_data :: "string \<Rightarrow> apiCreate_input \<Rightarrow> Api" where
  "api_data newId input =
     \<lparr>Api.id = newId,
      name = apiCreate_input.name input,
      description = apiCreate_input.description input,
      endpoint = apiCreate_input.endpoint input,
      method = apiCreate_input.method input,
      params = [],
      body = [],
      headers = [],
      authorization = [],
      preRequestScript = apiCreate_input.preRequestScript input,
      postResponseScript = apiCreate_input.postResponseScript input,
      tags = apiCreate_input.tags input,
      versions = apiCreate_input.versions input,
      order = apiCreate_input.order input,
      status = apiCreate_input.status input,
      projectId = apiCreate_input.projectId input\<rparr>"

definition apiCreate ::
  "Enums \<Rightarrow> store \<Rightarrow> string \<Rightarrow> User \<Rightarrow> apiCreate_input \<Rightarrow> Api outcome" where
  "apiCreate E db newId user input =
     (if \<not> apiCreate_schema E input then (Inl ZodError, db)
      else
        let (projectMember, db') = projectMember_findFirst db
              (\<lambda>m. ProjectMember.userId m = User.id user)
        in case projectMember of
             None \<Rightarrow> (Inl (Error ''Project not found''), db')
           | Some projectMember \<Rightarrow>
               if \<not> role_includes (ProjectMember.role projectMember)
               then (Inl (Error ''Permission denied''), db')
               else
                 let (api, db'') = api_create db' (api_data newId input)
                 in (Inr api, db''))"

subsection \<open>Outcomes of the contract\<close>

text \<open>
  The spec's NotFoundOrDenied is the generic "not found": the error
  \<^verbatim>\<open>Project not found\<close> that the resolvers throw, and the record-not-found error with
  which a filtered \<^verbatim>\<open>update\<close> or \<^verbatim>\<open>delete\<close> that matches no row ends. The error
  \<^verbatim>\<open>Permission denied\<close> is a different message and tells the caller that a membership was
  found. The spec's ValidationError is \<open>ZodError\<close>.
\<close>

definition NotFoundOrDenied :: "error \<Rightarrow> bool" where
  "NotFoundOrDenied e = (e = Error ''Project not found'' \<or> e = PrismaRecordNotFound)"

text \<open>The error with which a call ended, if it ended with one.\<close>

definition thrown :: "'a outcome \<Rightarrow> error option" where
  "thrown r = (case fst r of Inl e \<Rightarrow> Some e | Inr _ \<Rightarrow> None)"

text \<open>Memberships of a caller, read off the member tables.\<close>

definition project_role :: "store \<Rightarrow> string \<Rightarrow> string \<Rightarrow> string \<Rightarrow> bool" where
  "project_role db uid pid r =
     list_ex (\<lambda>m. ProjectMember.userId m = uid \<and> ProjectMember.projectId m = pid \<and>
                  ProjectMember.role m = r) (projectMembers db)"

text \<open>The roles on the caller's project member rows, in the order of the table.\<close>

definition roles_of :: "store \<Rightarrow> string \<Rightarrow> string list" where
  "roles_of db uid =
     map ProjectMember.role (filter (\<lambda>m. ProjectMember.userId m = uid) (projectMembers db))"

definition project_member :: "store \<Rightarrow> string \<Rightarrow> string \<Rightarrow> bool" where
  "project_member db uid pid =
     list_ex (\<lambda>m. ProjectMember.userId m = uid \<and> ProjectMember.projectId m = pid)
       (projectMembers db)"

definition team_member :: "store \<Rightarrow> string \<Rightarrow> string \<Rightarrow> bool" where
  "team_member db uid tid =
     list_ex (\<lambda>m. TeamMember.userId m = uid \<and> TeamMember.teamId m = tid) (teamMembers db)"

text \<open>The member rows of a project and of a team.\<close>

definition project_rows :: "store \<Rightarrow> string \<Rightarrow> ProjectMember list" where
  "project_rows db pid = filter (\<lambda>m. ProjectMember.projectId m = pid) (projectMembers db)"

definition team_rows :: "store \<Rightarrow> string \<Rightarrow> TeamMember list" where
  "team_rows db tid = filter (\<lambda>m. TeamMember.teamId m = tid) (teamMembers db)"

definition project_exists :: "store \<Rightarrow> string \<Rightarrow> bool" where
  "project_exists db pid = list_ex (\<lambda>p. Project.id p = pid) (projects db)"

definition team_exists :: "store \<Rightarrow> string \<Rightarrow> bool" where
  "team_exists db tid = list_ex (\<lambda>t. Team.id t = tid) (teams db)"

subsection \<open>Stores to run the procedures on\<close>

text \<open>
  The scenario of the spec, extended: \<open>U1\<close> owns team \<open>T1\<close> and the private project
  \<open>P1\<close>; \<open>U2\<close> became a plain member of \<open>P1\<close> and later the owner of \<open>P2\<close>;
  \<open>U4\<close> is a plain member of \<open>P1\<close>; \<open>U3\<close> is a member of nothing.
\<close>

definition u1 :: User where
  "u1 = \<lparr>User.id = ''U1''\<rparr>"

definition u2 :: User where
  "u2 = \<lparr>User.id = ''U2''\<rparr>"

definition u3 :: User where
  "u3 = \<lparr>User.id = ''U3''\<rparr>"

definition u4 :: User where
  "u4 = \<lparr>User.id = ''U4''\<rparr>"

definition api1 :: Api where
  "api1 = \<lparr>Api.id = ''A1'', name = Some ''ping'', description = None, endpoint = ''/ping'',
     method = ''GET'', params = [], body = [], headers = [], authorization = [],
     preRequestScript = [], postResponseScript = [], tags = [], versions = [],
     order = 0, status = None, projectId = ''P1''\<rparr>"

definition project1 :: Project where
  "project1 = \<lparr>Project.id = ''P1'', name = ''beer'', description = ''the api'',
     teamId = ''T1'', visibility = ''PRIVATE''\<rparr>"

definition project2 :: Project where
  "project2 = \<lparr>Project.id = ''P2'', name = ''cider'', description = ''another api'',
     teamId = ''T1'', visibility = ''PUBLIC''\<rparr>"

definition db0 :: store where
  "db0 = \<lparr>projects = [], projectMembers = [], teams = [], teamMembers = [], apis = [],
          queries = 0\<rparr>"

definition db1 :: store where
  "db1 = \<lparr>projects = [project1, project2],
          projectMembers =
            [\<lparr>ProjectMember.userId = ''U1'', projectId = ''P1'', role = Role_Owner\<rparr>,
             \<lparr>ProjectMember.userId = ''U2'', projectId = ''P1'', role = Role_Member\<rparr>,
             \<lparr>ProjectMember.userId = ''U2'', projectId = ''P2'', role = Role_Owner\<rparr>,
             \<lparr>ProjectMember.userId = ''U4'', projectId = ''P1'', role = Role_Member\<rparr>],
          teams = [\<lparr>Team.id = ''T1'', name = ''brewers'', description = None\<rparr>],
          teamMembers = [\<lparr>TeamMember.userId = ''U1'', teamId = ''T1'', role = Role_Owner\<rparr>],
          apis = [api1],
          queries = 0\<rparr>"

text \<open>The same store before \<open>U2\<close> and \<open>U4\<close> joined and before \<open>P2\<close> was created.\<close>

definition db_solo :: store where
  "db_solo = \<lparr>projects = [project1],
          projectMembers =
            [\<lparr>ProjectMember.userId = ''U1'', projectId = ''P1'', role = Role_Owner\<rparr>],
          teams = [\<lparr>Team.id = ''T1'', name = ''brewers'', description = None\<rparr>],
          teamMembers = [\<lparr>TeamMember.userId = ''U1'', teamId = ''T1'', role = Role_Owner\<rparr>],
          apis = [],
          queries = 0\<rparr>"

definition enums :: Enums where
  "enums = \<lparr>ApiMethod = [''GET'', ''POST''], ApiStatus = [''DRAFT'', ''DONE'']\<rparr>"

definition api_input :: "string \<Rightarrow> apiCreate_input" where
  "api_input pid =
     \<lparr>apiCreate_input.name = Some ''pong'', description = None, endpoint = ''/pong'',
      method = ''POST'', params = [], body = [], headers = [], authorization = [],
      preRequestScript = [], postResponseScript = [], tags = [''v1''], versions = [],
      order = 1, status = None, projectId = pid\<rparr>"

definition project_input :: projectCreate_input where
  "project_input = \<lparr>projectCreate_input.name = ''stout'', description = ''dark beer'',
     teamId = ''T1'', visibility = ''PRIVATE''\<rparr>"

definition public_input :: projectCreate_input where
  "public_input = \<lparr>projectCreate_input.name = ''lager'', description = ''pale beer'',
     teamId = ''T1'', visibility = ''PUBLIC''\<rparr>"

definition team_input :: teamCreate_input where
  "team_input = \<lparr>teamCreate_input.name = ''maltsters'', description = None\<rparr>"

section \<open>Properties\<close>

subsection \<open>Searching a table\<close>

lemma find_None_list_ex: "find w xs = None \<longleftrightarrow> \<not> list_ex w xs"
  by (auto simp: find_None_iff list_ex_iff)

lemma find_Some_holds: "find w xs = Some x \<Longrightarrow> w x \<and> x \<in> set xs"
  by (induction xs) (auto split: if_splits)

lemma find_append_last:
  assumes "\<not> list_ex w xs" and "w x"
  shows "find w (xs @ [x]) = Some x"
  using assms by (induction xs) auto

lemma find_unique:
  assumes "p \<in> set xs" and "w p" and "\<forall>q\<in>set xs. w q \<longrightarrow> q = p"
  shows "find w xs = Some p"
proof -
  from assms(1,2) have "find w xs \<noteq> None"
    unfolding find_None_iff by blast
  then obtain q where q: "find w xs = Some q"
    by blast
  then have "w q \<and> q \<in> set xs"
    by (rule find_Some_holds)
  with assms(3) have "q = p"
    by blast
  with q show ?thesis
    by simp
qed

subsection \<open>Reads are scoped by membership, except the list of APIs\<close>

text \<open>
  The four procedures on projects and teams put the caller's membership into the query, so
  what they return is a stored row of a scope the caller belongs to.
\<close>

lemma projectList_members_only:
  assumes "projectList db user input = (Inr ps, db')" and "p \<in> set ps"
  shows "p \<in> set (projects db) \<and> project_member db (User.id user) (Project.id p)"
  using assms
  by (auto simp: projectList_def project_findMany_def project_members_some_def
      project_member_def list_ex_iff split: if_splits)

lemma projectShow_members_only:
  assumes "projectShow db user input = (Inr q, db')"
  shows "project_member db (User.id user) (Project.id q) \<and> Project.id q = id_input.id input"
  using assms
  by (auto simp: projectShow_def project_findFirst_def project_members_some_def
      project_member_def list_ex_iff split: option.splits dest!: find_Some_holds)

lemma teamList_members_only:
  assumes "teamList db user = (Inr ts, db')" and "t \<in> set ts"
  shows "t \<in> set (teams db) \<and> team_member db (User.id user) (Team.id t)"
  using assms
  by (auto simp: teamList_def team_findMany_def team_members_some_def
      team_member_def list_ex_iff)

lemma teamShow_members_only:
  assumes "teamShow db user input = (Inr t, db')"
  shows "t \<in> set (teams db) \<and> team_member db (User.id user) (Team.id t)"
  using assms
  by (auto simp: teamShow_def team_findFirst_def team_members_some_def
      team_member_def list_ex_iff split: option.splits dest!: find_Some_holds)

text \<open>
  C1. The show and list procedures never return an entity of a scope in which the caller has
  no membership. \<^verbatim>\<open>apiList\<close> does: its query has no membership condition. \<open>U3\<close>, a
  member of no project, lists the APIs of \<open>P1\<close> and receives the API stored there.
\<close>

theorem apiList_returns_without_membership:
  "fst (apiList db1 u3 \<lparr>apiList_input.name = None, projectId = ''P1''\<rparr>) = Inr [api1] \<and>
   Api.projectId api1 = ''P1'' \<and> \<not> project_member db1 (User.id u3) ''P1''"
  by code_simp

subsection \<open>Validation comes first\<close>

text \<open>
  C8. A \<^verbatim>\<open>projectCreate\<close> or \<^verbatim>\<open>projectUpdate\<close> input whose name has fewer than 3 or
  more than 50 characters, or whose description has fewer than 3 or more than 255, fails with
  the validation error, whoever calls and whatever is stored, and the store is left as it
  was, its count of queries included: no membership was looked up and nothing was written.
\<close>

theorem invalid_bounds_rejected_before_store:
  fixes ci :: projectCreate_input and ui :: projectUpdate_input
  assumes "length (projectCreate_input.name ci) < 3 \<or> 50 < length (projectCreate_input.name ci) \<or>
           length (projectCreate_input.description ci) < 3 \<or>
           255 < length (projectCreate_input.description ci)"
    and "length (projectUpdate_input.name ui) < 3 \<or> 50 < length (projectUpdate_input.name ui) \<or>
         length (projectUpdate_input.description ui) < 3 \<or>
         255 < length (projectUpdate_input.description ui)"
  shows "projectCreate db newId user ci = (Inl ZodError, db) \<and>
         projectUpdate db user ui = (Inl ZodError, db)"
proof -
  from assms(1) have "\<not> projectCreate_schema ci"
    by (auto simp: projectCreate_schema_def min_max_def)
  moreover from assms(2) have "\<not> projectUpdate_schema ui"
    by (auto simp: projectUpdate_schema_def min_max_def)
  ultimately show ?thesis
    by (simp add: projectCreate_def projectUpdate_def)
qed

theorem invalid_bounds_rejected_before_store_witness:
  "projectCreate db1 ''P2'' u2
     \<lparr>projectCreate_input.name = ''ab'', description = ''a project'', teamId = ''T1'',
      visibility = ''PUBLIC''\<rparr> = (Inl ZodError, db1) \<and>
   projectUpdate db1 u2
     \<lparr>projectUpdate_input.id = ''P1'', name = ''beer'', description = ''x'',
      visibility = ''PUBLIC''\<rparr> = (Inl ZodError, db1)"
  using invalid_bounds_rejected_before_store
    [of "\<lparr>projectCreate_input.name = ''ab'', description = ''a project'', teamId = ''T1'',
          visibility = ''PUBLIC''\<rparr>"
        "\<lparr>projectUpdate_input.id = ''P1'', name = ''beer'', description = ''x'',
          visibility = ''PUBLIC''\<rparr>" db1 "''P2''" u2]
  by simp

subsection \<open>Only an owner changes or removes a project\<close>

text \<open>
  C4. When the caller is a member of the project but holds no Owner row on it (its role there
  is Maintainer or Member), \<^verbatim>\<open>projectUpdate\<close> with a well-formed input and
  \<^verbatim>\<open>projectDelete\<close> fail with the not-found outcome, and every table of the store is as
  before: only the count of queries has moved, by the one call that found no row.
\<close>

theorem non_owner_update_delete_denied:
  assumes "projectUpdate_schema ui"
    and "projectUpdate_input.id ui = pid" and "id_input.id di = pid"
    and "project_exists db pid"
    and "project_member db (User.id user) pid"
    and "\<not> project_role db (User.id user) pid Role_Owner"
  shows "(\<exists>e. NotFoundOrDenied e \<and>
              projectUpdate db user ui = (Inl e, db\<lparr>queries := Suc (queries db)\<rparr>)) \<and>
         (\<exists>e. NotFoundOrDenied e \<and>
              projectDelete db user di = (Inl e, db\<lparr>queries := Suc (queries db)\<rparr>))"
proof -
  let ?w = "\<lambda>p. Project.id p = pid \<and>
                 project_members_some db
                   (\<lambda>m. ProjectMember.userId m = User.id user \<and>
                         ProjectMember.role m = Role_Owner) p"
  from assms(6) have "\<not> list_ex ?w (projects db)"
    by (auto simp: project_role_def project_members_some_def list_ex_iff)
  then have none: "find ?w (projects db) = None"
    by (simp add: find_None_list_ex)
  have "projectUpdate db user ui = (Inl PrismaRecordNotFound, db\<lparr>queries := Suc (queries db)\<rparr>)"
    using assms(1,2) none by (simp add: projectUpdate_def project_update_def tick_def)
  moreover
  have "projectDelete db user di = (Inl PrismaRecordNotFound, db\<lparr>queries := Suc (queries db)\<rparr>)"
    using assms(3) none by (simp add: projectDelete_def project_delete_def tick_def)
  ultimately show ?thesis
    by (simp add: NotFoundOrDenied_def)
qed

theorem non_owner_update_delete_denied_witness:
  "(\<exists>e. NotFoundOrDenied e \<and>
        projectUpdate db1 u2
          \<lparr>projectUpdate_input.id = ''P1'', name = ''stout'', description = ''dark'',
           visibility = ''PUBLIC''\<rparr> = (Inl e, db1\<lparr>queries := Suc (queries db1)\<rparr>)) \<and>
   (\<exists>e. NotFoundOrDenied e \<and>
        projectDelete db1 u2 \<lparr>id_input.id = ''P1''\<rparr> = (Inl e, db1\<lparr>queries := Suc (queries db1)\<rparr>))"
proof -
  have "projectUpdate_schema
          \<lparr>projectUpdate_input.id = ''P1'', name = ''stout'', description = ''dark'',
           visibility = ''PUBLIC''\<rparr>"
    by code_simp
  moreover have "project_exists db1 ''P1''"
    by code_simp
  moreover have "project_member db1 (User.id u2) ''P1''"
    by code_simp
  moreover have "\<not> project_role db1 (User.id u2) ''P1'' Role_Owner"
    by code_simp
  ultimately show ?thesis
    using non_owner_update_delete_denied
      [of "\<lparr>projectUpdate_input.id = ''P1'', name = ''stout'', description = ''dark'',
            visibility = ''PUBLIC''\<rparr>" "''P1''" "\<lparr>id_input.id = ''P1''\<rparr>" db1 u2]
    by simp
qed

subsection \<open>What a project looks like when it is read back\<close>

text \<open>
  \<open>toLowerCase\<close> is the lower-case form of the table: it replaces each of the letters
  \<open>A\<close> to \<open>Z\<close> by its small letter and keeps every other character.
\<close>

lemma lower_lowercase_letter: "lower c = lowercase_letter c"
proof (cases c)
  case (Char b0 b1 b2 b3 b4 b5 b6 b7)
  then show ?thesis
    by (cases b0; cases b1; cases b2; cases b3; cases b4; cases b5; cases b6; cases b7)
      (simp_all add: lower_def lowercase_letter_def char_of_eq_iff)
qed

lemma toLowerCase_lowercase_form: "toLowerCase s = lowercase_form s"
  by (simp add: toLowerCase_def lowercase_form_def lower_lowercase_letter)

lemma lowercase_form_PUBLIC: "lowercase_form ''PUBLIC'' = ''public''"
  by (simp add: lowercase_form_def lowercase_letter_def)

lemma lowercase_form_PRIVATE: "lowercase_form ''PRIVATE'' = ''private''"
  by (simp add: lowercase_form_def lowercase_letter_def)

text \<open>
  C6. After \<^verbatim>\<open>projectCreate\<close> with a well-formed input, \<^verbatim>\<open>projectShow\<close> called
  by the creator with the identifier of the new project returns a project with the name, the
  description and the team of the input, and with the visibility of the input in its
  lower-case form: \<open>public\<close> for an input \<open>PUBLIC\<close>, \<open>private\<close> for an input
  \<open>PRIVATE\<close>, the two values the schema lets through. The identifier that the store gave
  to the project is one that no stored project has.
\<close>

theorem create_then_show_roundtrip:
  assumes "projectCreate_schema input" and "\<not> project_exists db newId"
  shows "\<exists>p db' q.
           projectCreate db newId user input = (Inr p, db') \<and>
           projectShow db' user \<lparr>id_input.id = Project.id p\<rparr> = (Inr q, tick db') \<and>
           Project.id q = Project.id p \<and>
           Project.name q = projectCreate_input.name input \<and>
           Project.description q = projectCreate_input.description input \<and>
           Project.teamId q = projectCreate_input.teamId input \<and>
           Project.visibility q = lowercase_form (projectCreate_input.visibility input) \<and>
           (projectCreate_input.visibility input = ''PUBLIC'' \<and>
              Project.visibility q = ''public'' \<or>
            projectCreate_input.visibility input = ''PRIVATE'' \<and>
              Project.visibility q = ''private'')"
proof -
  define p where "p = \<lparr>Project.id = newId,
               name = projectCreate_input.name input,
               description = projectCreate_input.description input,
               teamId = projectCreate_input.teamId input,
               visibility = projectCreate_input.visibility input\<rparr>"
  define m where "m = \<lparr>ProjectMember.userId = User.id user, projectId = newId, role = Role_Owner\<rparr>"
  define db' where "db' = tick (db\<lparr>projects := projects db @ [p],
                                  projectMembers := projectMembers db @ [m]\<rparr>)"
  define q where "q = p\<lparr>Project.visibility := toLowerCase (Project.visibility p)\<rparr>"
  let ?w = "\<lambda>p. Project.id p = newId \<and>
                 project_members_some db' (\<lambda>m. ProjectMember.userId m = User.id user) p"
  have create: "projectCreate db newId user input = (Inr p, db')"
    using assms(1) by (simp add: projectCreate_def project_create_def p_def m_def db'_def)
  have "\<not> list_ex ?w (projects db)"
    using assms(2) by (auto simp: project_exists_def list_ex_iff)
  moreover have "?w p"
    by (simp add: project_members_some_def db'_def tick_def p_def m_def)
  ultimately have "find ?w (projects db @ [p]) = Some p"
    by (rule find_append_last)
  then have found: "find ?w (projects db') = Some p"
    by (simp add: db'_def tick_def)
  have shown: "projectShow db' user \<lparr>id_input.id = Project.id p\<rparr> = (Inr q, tick db')"
    using found by (simp add: projectShow_def project_findFirst_def p_def q_def)
  have fields: "Project.id q = Project.id p \<and>
                Project.name q = projectCreate_input.name input \<and>
                Project.description q = projectCreate_input.description input \<and>
                Project.teamId q = projectCreate_input.teamId input"
    by (simp add: q_def p_def)
  have vis: "Project.visibility q = lowercase_form (projectCreate_input.visibility input)"
    by (simp add: q_def p_def toLowerCase_lowercase_form)
  from assms(1) have "projectCreate_input.visibility input = ''PUBLIC'' \<or>
                      projectCreate_input.visibility input = ''PRIVATE''"
    by (simp add: projectCreate_schema_def nativeEnum_def ProjectVisibility_def)
  with vis have literal: "projectCreate_input.visibility input = ''PUBLIC'' \<and>
              Project.visibility q = ''public'' \<or>
            projectCreate_input.visibility input = ''PRIVATE'' \<and>
              Project.visibility q = ''private''"
    using lowercase_form_PUBLIC lowercase_form_PRIVATE by auto
  from create shown fields vis literal show ?thesis
    by blast
qed

theorem create_then_show_roundtrip_witness:
  "(\<exists>p db' q.
      projectCreate db1 ''P3'' u3 project_input = (Inr p, db') \<and>
      projectShow db' u3 \<lparr>id_input.id = Project.id p\<rparr> = (Inr q, tick db') \<and>
      Project.name q = ''stout'' \<and> Project.description q = ''dark beer'' \<and>
      Project.visibility q = ''private'') \<and>
   (\<exists>p db' q.
      projectCreate db1 ''P3'' u3 public_input = (Inr p, db') \<and>
      projectShow db' u3 \<lparr>id_input.id = Project.id p\<rparr> = (Inr q, tick db') \<and>
      Project.name q = ''lager'' \<and> Project.description q = ''pale beer'' \<and>
      Project.visibility q = ''public'')"
proof -
  have valid1: "projectCreate_schema project_input" and valid2: "projectCreate_schema public_input"
    by code_simp+
  have fresh: "\<not> project_exists db1 ''P3''"
    by code_simp
  have 1: "\<exists>p db' q.
      projectCreate db1 ''P3'' u3 project_input = (Inr p, db') \<and>
      projectShow db' u3 \<lparr>id_input.id = Project.id p\<rparr> = (Inr q, tick db') \<and>
      Project.name q = ''stout'' \<and> Project.description q = ''dark beer'' \<and>
      Project.visibility q = ''private''"
    using create_then_show_roundtrip [OF valid1 fresh, of u3]
    by (simp add: project_input_def) blast
  have 2: "\<exists>p db' q.
      projectCreate db1 ''P3'' u3 public_input = (Inr p, db') \<and>
      projectShow db' u3 \<lparr>id_input.id = Project.id p\<rparr> = (Inr q, tick db') \<and>
      Project.name q = ''lager'' \<and> Project.description q = ''pale beer'' \<and>
      Project.visibility q = ''public''"
    using create_then_show_roundtrip [OF valid2 fresh, of u3]
    by (simp add: public_input_def) blast
  from 1 2 show ?thesis
    by (rule conjI)
qed

text \<open>
  C9. For a project the caller is a member of, \<^verbatim>\<open>projectShow\<close> returns the stored
  row with the visibility replaced by its lower-case form, \<open>public\<close> for a stored
  \<open>PUBLIC\<close> and \<open>private\<close> for a stored \<open>PRIVATE\<close>, while \<^verbatim>\<open>projectList\<close>,
  asked with filters that the project passes, returns the stored row itself among stored
  rows only. Identifiers of projects are unique in the store.
\<close>

theorem show_lowercases_list_keeps:
  assumes "p \<in> set (projects db)"
    and "distinct (map Project.id (projects db))"
    and "project_member db (User.id user) (Project.id p)"
    and "projectList_schema li"
    and "where_opt (contains (Project.name p)) (projectList_input.name li)"
    and "projectList_input.teamId li = Project.teamId p"
    and "where_opt (\<lambda>v. Project.visibility p = v) (projectList_input.visibility li)"
  shows "projectShow db user \<lparr>id_input.id = Project.id p\<rparr> =
           (Inr (p\<lparr>Project.visibility := lowercase_form (Project.visibility p)\<rparr>), tick db) \<and>
         (Project.visibility p = ''PUBLIC'' \<longrightarrow>
            projectShow db user \<lparr>id_input.id = Project.id p\<rparr> =
              (Inr (p\<lparr>Project.visibility := ''public''\<rparr>), tick db)) \<and>
         (Project.visibility p = ''PRIVATE'' \<longrightarrow>
            projectShow db user \<lparr>id_input.id = Project.id p\<rparr> =
              (Inr (p\<lparr>Project.visibility := ''private''\<rparr>), tick db)) \<and>
         (\<exists>ps. projectList db user li = (Inr ps, tick db) \<and> p \<in> set ps \<and>
               set ps \<subseteq> set (projects db))"
proof -
  let ?w = "\<lambda>q. Project.id q = Project.id p \<and>
                 project_members_some db (\<lambda>m. ProjectMember.userId m = User.id user) q"
  have member: "project_members_some db (\<lambda>m. ProjectMember.userId m = User.id user) p"
    using assms(3) by (auto simp: project_member_def project_members_some_def list_ex_iff)
  have inj: "inj_on Project.id (set (projects db))"
    using assms(2) by (simp add: distinct_map)
  have only: "q = p" if "q \<in> set (projects db)" and "?w q" for q
  proof -
    from that(2) have "Project.id q = Project.id p"
      by simp
    with inj_on_eq_iff [OF inj that(1) assms(1)] show ?thesis
      by simp
  qed
  have "find ?w (projects db) = Some p"
  proof (rule find_unique)
    show "p \<in> set (projects db)"
      by (rule assms(1))
    show "?w p"
      using member by simp
    show "\<forall>q\<in>set (projects db). ?w q \<longrightarrow> q = p"
      using only by blast
  qed
  then have shown: "projectShow db user \<lparr>id_input.id = Project.id p\<rparr> =
           (Inr (p\<lparr>Project.visibility := lowercase_form (Project.visibility p)\<rparr>), tick db)"
    by (simp add: projectShow_def project_findFirst_def toLowerCase_lowercase_form)
  have pub: "projectShow db user \<lparr>id_input.id = Project.id p\<rparr> =
              (Inr (p\<lparr>Project.visibility := ''public''\<rparr>), tick db)"
    if "Project.visibility p = ''PUBLIC''"
    using shown that by (simp add: lowercase_form_PUBLIC)
  have priv: "projectShow db user \<lparr>id_input.id = Project.id p\<rparr> =
              (Inr (p\<lparr>Project.visibility := ''private''\<rparr>), tick db)"
    if "Project.visibility p = ''PRIVATE''"
    using shown that by (simp add: lowercase_form_PRIVATE)
  define ps where "ps = filter (\<lambda>p.
              where_opt (contains (Project.name p)) (projectList_input.name li) \<and>
              Project.teamId p = projectList_input.teamId li \<and>
              where_opt (\<lambda>v. Project.visibility p = v) (projectList_input.visibility li) \<and>
              project_members_some db (\<lambda>m. ProjectMember.userId m = User.id user) p)
            (projects db)"
  have "projectList db user li = (Inr ps, tick db)"
    using assms(4) by (simp add: projectList_def project_findMany_def ps_def)
  moreover have "p \<in> set ps"
    using assms(1,5,6,7) member by (simp add: ps_def)
  moreover have "set ps \<subseteq> set (projects db)"
    by (simp add: ps_def)
  ultimately have listed: "\<exists>ps. projectList db user li = (Inr ps, tick db) \<and> p \<in> set ps \<and>
               set ps \<subseteq> set (projects db)"
    by blast
  from shown pub priv listed show ?thesis
    by blast
qed

theorem show_lowercases_list_keeps_witness:
  "Project.visibility project1 = ''PRIVATE'' \<and>
   projectShow db1 u2 \<lparr>id_input.id = ''P1''\<rparr> =
     (Inr (project1\<lparr>Project.visibility := ''private''\<rparr>), tick db1) \<and>
   (\<exists>ps. projectList db1 u2
           \<lparr>projectList_input.name = Some ''ee'', teamId = ''T1'', visibility = Some ''PRIVATE''\<rparr> =
             (Inr ps, tick db1) \<and> project1 \<in> set ps \<and> set ps \<subseteq> set (projects db1)) \<and>
   Project.visibility project2 = ''PUBLIC'' \<and>
   projectShow db1 u2 \<lparr>id_input.id = ''P2''\<rparr> =
     (Inr (project2\<lparr>Project.visibility := ''public''\<rparr>), tick db1) \<and>
   (\<exists>ps. projectList db1 u2
           \<lparr>projectList_input.name = Some ''c_der'', teamId = ''T1'', visibility = None\<rparr> =
             (Inr ps, tick db1) \<and> project2 \<in> set ps \<and> set ps \<subseteq> set (projects db1))"
proof -
  let ?l1 = "\<lparr>projectList_input.name = Some ''ee'', teamId = ''T1'', visibility = Some ''PRIVATE''\<rparr>"
  let ?l2 = "\<lparr>projectList_input.name = Some ''c_der'', teamId = ''T1'', visibility = None\<rparr>"
  have a1: "project1 \<in> set (projects db1)" and b1: "project2 \<in> set (projects db1)"
    by (simp_all add: db1_def)
  have 2: "distinct (map Project.id (projects db1))"
    by code_simp
  have a3: "project_member db1 (User.id u2) (Project.id project1)"
    and b3: "project_member db1 (User.id u2) (Project.id project2)"
    by code_simp+
  have a4: "projectList_schema ?l1" and b4: "projectList_schema ?l2"
    by code_simp+
  have a5: "where_opt (contains (Project.name project1)) (projectList_input.name ?l1)"
    and b5: "where_opt (contains (Project.name project2)) (projectList_input.name ?l2)"
    by code_simp+
  have a6: "projectList_input.teamId ?l1 = Project.teamId project1"
    and b6: "projectList_input.teamId ?l2 = Project.teamId project2"
    by code_simp+
  have a7: "where_opt (\<lambda>v. Project.visibility project1 = v) (projectList_input.visibility ?l1)"
    and b7: "where_opt (\<lambda>v. Project.visibility project2 = v) (projectList_input.visibility ?l2)"
    by code_simp+
  have ids: "Project.id project1 = ''P1''" "Project.id project2 = ''P2''"
    by (simp_all add: project1_def project2_def)
  have vis: "Project.visibility project1 = ''PRIVATE''" "Project.visibility project2 = ''PUBLIC''"
    by (simp_all add: project1_def project2_def)
  from show_lowercases_list_keeps [OF a1 2 a3 a4 a5 a6 a7]
    show_lowercases_list_keeps [OF b1 2 b3 b4 b5 b6 b7] ids vis
  show ?thesis
    by (simp add: lowercase_form_PUBLIC lowercase_form_PRIVATE)
qed

subsection \<open>Creating a scope writes its owner\<close>

text \<open>
  C3. With a well-formed input, \<^verbatim>\<open>projectCreate\<close> and \<^verbatim>\<open>teamCreate\<close> append the
  entity and exactly one member row, that of the caller with role Owner, and both are
  written by one call of the store: the count of queries moves by one, so there is no state
  between the one that has neither and the one that has both. The identifier of the new
  entity is fresh, so afterwards it names that entity alone and the owner's row is the only
  member row of the new scope.
\<close>

theorem create_writes_owner_row_with_entity:
  assumes "projectCreate_schema pin" and "teamCreate_schema tin"
    and "\<not> project_exists db pid" and "project_rows db pid = []"
    and "\<not> team_exists db tid" and "team_rows db tid = []"
  shows "(\<exists>p db'. projectCreate db pid user pin = (Inr p, db') \<and>
            Project.id p = pid \<and>
            projects db' = projects db @ [p] \<and>
            filter (\<lambda>q. Project.id q = pid) (projects db') = [p] \<and>
            projectMembers db' = projectMembers db @
              [\<lparr>ProjectMember.userId = User.id user, projectId = pid, role = Role_Owner\<rparr>] \<and>
            project_rows db' pid =
              [\<lparr>ProjectMember.userId = User.id user, projectId = pid, role = Role_Owner\<rparr>] \<and>
            queries db' = Suc (queries db)) \<and>
         (\<exists>t db'. teamCreate db tid user tin = (Inr t, db') \<and>
            Team.id t = tid \<and>
            teams db' = teams db @ [t] \<and>
            filter (\<lambda>q. Team.id q = tid) (teams db') = [t] \<and>
            teamMembers db' = teamMembers db @
              [\<lparr>TeamMember.userId = User.id user, teamId = tid, role = Role_Owner\<rparr>] \<and>
            team_rows db' tid =
              [\<lparr>TeamMember.userId = User.id user, teamId = tid, role = Role_Owner\<rparr>] \<and>
            queries db' = Suc (queries db))"
proof -
  have no_project: "filter (\<lambda>q. Project.id q = pid) (projects db) = []"
    using assms(3) by (simp add: project_exists_def list_ex_iff filter_empty_conv)
  have no_team: "filter (\<lambda>q. Team.id q = tid) (teams db) = []"
    using assms(5) by (simp add: team_exists_def list_ex_iff filter_empty_conv)
  have project: "\<exists>p db'. projectCreate db pid user pin = (Inr p, db') \<and>
            Project.id p = pid \<and>
            projects db' = projects db @ [p] \<and>
            filter (\<lambda>q. Project.id q = pid) (projects db') = [p] \<and>
            projectMembers db' = projectMembers db @
              [\<lparr>ProjectMember.userId = User.id user, projectId = pid, role = Role_Owner\<rparr>] \<and>
            project_rows db' pid =
              [\<lparr>ProjectMember.userId = User.id user, projectId = pid, role = Role_Owner\<rparr>] \<and>
            queries db' = Suc (queries db)"
    using assms(1,4) no_project
    by (simp add: projectCreate_def project_create_def tick_def project_rows_def)
  have team: "\<exists>t db'. teamCreate db tid user tin = (Inr t, db') \<and>
            Team.id t = tid \<and>
            teams db' = teams db @ [t] \<and>
            filter (\<lambda>q. Team.id q = tid) (teams db') = [t] \<and>
            teamMembers db' = teamMembers db @
              [\<lparr>TeamMember.userId = User.id user, teamId = tid, role = Role_Owner\<rparr>] \<and>
            team_rows db' tid =
              [\<lparr>TeamMember.userId = User.id user, teamId = tid, role = Role_Owner\<rparr>] \<and>
            queries db' = Suc (queries db)"
    using assms(2,6) no_team
    by (simp add: teamCreate_def team_create_def tick_def team_rows_def)
  from project team show ?thesis
    by (rule conjI)
qed

theorem create_writes_owner_row_with_entity_witness:
  "(\<exists>p db'. projectCreate db1 ''P3'' u3 project_input = (Inr p, db') \<and>
      Project.id p = ''P3'' \<and>
      projects db' = projects db1 @ [p] \<and>
      filter (\<lambda>q. Project.id q = ''P3'') (projects db') = [p] \<and>
      projectMembers db' = projectMembers db1 @
        [\<lparr>ProjectMember.userId = ''U3'', projectId = ''P3'', role = Role_Owner\<rparr>] \<and>
      project_rows db' ''P3'' =
        [\<lparr>ProjectMember.userId = ''U3'', projectId = ''P3'', role = Role_Owner\<rparr>] \<and>
      queries db' = Suc (queries db1)) \<and>
   (\<exists>t db'. teamCreate db1 ''T2'' u3 team_input = (Inr t, db') \<and>
      Team.id t = ''T2'' \<and>
      teams db' = teams db1 @ [t] \<and>
      filter (\<lambda>q. Team.id q = ''T2'') (teams db') = [t] \<and>
      teamMembers db' = teamMembers db1 @
        [\<lparr>TeamMember.userId = ''U3'', teamId = ''T2'', role = Role_Owner\<rparr>] \<and>
      team_rows db' ''T2'' =
        [\<lparr>TeamMember.userId = ''U3'', teamId = ''T2'', role = Role_Owner\<rparr>] \<and>
      queries db' = Suc (queries db1))"
proof -
  have 1: "projectCreate_schema project_input" and 2: "teamCreate_schema team_input"
    by code_simp+
  have 3: "\<not> project_exists db1 ''P3''" and 4: "project_rows db1 ''P3'' = []"
    by code_simp+
  have 5: "\<not> team_exists db1 ''T2''" and 6: "team_rows db1 ''T2'' = []"
    by code_simp+
  have "User.id u3 = ''U3''"
    by (simp add: u3_def)
  with create_writes_owner_row_with_entity [OF 1 2 3 4 5 6, of u3] show ?thesis
    by simp
qed

subsection \<open>The permission test of apiCreate\<close>

lemma role_includes_iff: "role_includes r \<longleftrightarrow> r = Role_Owner \<or> r = Role_Maintainer"
  by (auto simp: role_includes_def)

lemma apiCreate_no_member_row:
  assumes "apiCreate_schema E input"
    and "\<not> list_ex (\<lambda>m. ProjectMember.userId m = User.id user) (projectMembers db)"
  shows "apiCreate E db newId user input = (Inl (Error ''Project not found''), tick db)"
proof -
  from assms(2) have "find (\<lambda>m. ProjectMember.userId m = User.id user) (projectMembers db) = None"
    by (simp add: find_None_list_ex)
  with assms(1) show ?thesis
    by (simp add: apiCreate_def projectMember_findFirst_def)
qed

lemma apiCreate_row_denied:
  assumes "apiCreate_schema E input"
    and "find (\<lambda>m. ProjectMember.userId m = User.id user) (projectMembers db) = Some m"
    and "\<not> role_includes (ProjectMember.role m)"
  shows "apiCreate E db newId user input = (Inl (Error ''Permission denied''), tick db)"
  using assms by (simp add: apiCreate_def projectMember_findFirst_def)

lemma apiCreate_row_allowed:
  assumes "apiCreate_schema E input"
    and "find (\<lambda>m. ProjectMember.userId m = User.id user) (projectMembers db) = Some m"
    and "role_includes (ProjectMember.role m)"
  shows "apiCreate E db newId user input =
           (Inr (api_data newId input),
            db\<lparr>apis := apis db @ [api_data newId input], queries := Suc (Suc (queries db))\<rparr>)"
  using assms by (simp add: apiCreate_def projectMember_findFirst_def api_create_def tick_def)

lemma apiCreate_schema_projectId:
  "apiCreate_schema E (input\<lparr>apiCreate_input.projectId := pid\<rparr>) = apiCreate_schema E input"
  by (simp add: apiCreate_schema_def)

lemma list_ex_find: "list_ex w xs \<Longrightarrow> \<exists>x. find w xs = Some x"
  using find_None_list_ex [of w xs] by (cases "find w xs") auto

lemma find_in_filter: "find w xs = Some x \<Longrightarrow> x \<in> set (filter w xs)"
  by (drule find_Some_holds) simp

lemma roles_of_Nil: "roles_of db uid = [] \<longleftrightarrow>
    \<not> list_ex (\<lambda>m. ProjectMember.userId m = uid) (projectMembers db)"
  by (auto simp: roles_of_def list_ex_iff filter_empty_conv)

lemma find_role_in_roles_of:
  assumes "find (\<lambda>m. ProjectMember.userId m = uid) (projectMembers db) = Some m"
  shows "ProjectMember.role m \<in> set (roles_of db uid)"
proof -
  from assms have "m \<in> set (filter (\<lambda>m. ProjectMember.userId m = uid) (projectMembers db))"
    by (rule find_in_filter)
  then show ?thesis
    unfolding roles_of_def by (simp only: set_map image_eqI)
qed

lemma roles_of_find:
  assumes "roles_of db uid \<noteq> []"
  shows "\<exists>m. find (\<lambda>m. ProjectMember.userId m = uid) (projectMembers db) = Some m \<and>
             ProjectMember.role m \<in> set (roles_of db uid)"
proof -
  from assms have "list_ex (\<lambda>m. ProjectMember.userId m = uid) (projectMembers db)"
    by (simp add: roles_of_Nil)
  then obtain m where "find (\<lambda>m. ProjectMember.userId m = uid) (projectMembers db) = Some m"
    by (auto dest: list_ex_find)
  then show ?thesis
    by (auto dest: find_role_in_roles_of)
qed

text \<open>
  C10. What \<^verbatim>\<open>apiCreate\<close> decides does not depend on \<^verbatim>\<open>input.projectId\<close>: it
  reads the first project member row of the caller, whatever its project. With any other
  target project the call ends with the same error or, as before, with none. When the row
  read has role Owner or Maintainer the API is created under every project identifier, a
  project the caller is no member of included; when it has role Member the call is denied,
  also for a target project that the caller owns.
\<close>

theorem apiCreate_permission_ignores_project:
  assumes "apiCreate_schema E input"
    and "find (\<lambda>m. ProjectMember.userId m = User.id user) (projectMembers db) = Some m"
  shows "thrown (apiCreate E db newId user (input\<lparr>apiCreate_input.projectId := pid\<rparr>)) =
           thrown (apiCreate E db newId user input) \<and>
         (ProjectMember.role m = Role_Owner \<or> ProjectMember.role m = Role_Maintainer \<longrightarrow>
            (\<exists>a db'. apiCreate E db newId user (input\<lparr>apiCreate_input.projectId := pid\<rparr>) =
                        (Inr a, db') \<and>
                      Api.projectId a = pid \<and> apis db' = apis db @ [a])) \<and>
         (ProjectMember.role m = Role_Member \<longrightarrow>
            apiCreate E db newId user (input\<lparr>apiCreate_input.projectId := pid\<rparr>) =
              (Inl (Error ''Permission denied''), tick db))"
proof -
  let ?input = "input\<lparr>apiCreate_input.projectId := pid\<rparr>"
  have valid: "apiCreate_schema E ?input"
    using assms(1) by (simp add: apiCreate_schema_projectId)
  have same: "thrown (apiCreate E db newId user ?input) = thrown (apiCreate E db newId user input)"
  proof (cases "role_includes (ProjectMember.role m)")
    case True
    with apiCreate_row_allowed [OF valid assms(2)] apiCreate_row_allowed [OF assms]
    show ?thesis
      by (simp add: thrown_def)
  next
    case False
    with apiCreate_row_denied [OF valid assms(2)] apiCreate_row_denied [OF assms]
    show ?thesis
      by (simp add: thrown_def)
  qed
  have allowed: "\<exists>a db'. apiCreate E db newId user ?input = (Inr a, db') \<and>
                      Api.projectId a = pid \<and> apis db' = apis db @ [a]"
    if "ProjectMember.role m = Role_Owner \<or> ProjectMember.role m = Role_Maintainer"
  proof -
    from that have "role_includes (ProjectMember.role m)"
      by (simp add: role_includes_iff)
    with apiCreate_row_allowed [OF valid assms(2)] show ?thesis
      by (simp add: api_data_def)
  qed
  have denied: "apiCreate E db newId user ?input = (Inl (Error ''Permission denied''), tick db)"
    if "ProjectMember.role m = Role_Member"
  proof -
    from that have "\<not> role_includes (ProjectMember.role m)"
      by (simp add: role_includes_iff Role_Member_def Role_Owner_def Role_Maintainer_def)
    with apiCreate_row_denied [OF valid assms(2)] show ?thesis
      by simp
  qed
  from same allowed denied show ?thesis
    by blast
qed

theorem apiCreate_permission_ignores_project_witness:
  "(\<not> project_member db1 (User.id u1) ''P2'' \<and>
    (\<exists>a db'. apiCreate enums db1 ''A2'' u1 (api_input ''P2'') = (Inr a, db') \<and>
              Api.projectId a = ''P2'' \<and> apis db' = apis db1 @ [a])) \<and>
   (project_role db1 (User.id u2) ''P2'' Role_Owner \<and>
    apiCreate enums db1 ''A2'' u2 (api_input ''P2'') =
      (Inl (Error ''Permission denied''), tick db1))"
proof -
  have valid: "apiCreate_schema enums (api_input ''P1'')"
    by code_simp
  have row1: "find (\<lambda>m. ProjectMember.userId m = User.id u1) (projectMembers db1) =
                Some \<lparr>ProjectMember.userId = ''U1'', projectId = ''P1'', role = Role_Owner\<rparr>"
    by (simp add: db1_def u1_def)
  have row2: "find (\<lambda>m. ProjectMember.userId m = User.id u2) (projectMembers db1) =
                Some \<lparr>ProjectMember.userId = ''U2'', projectId = ''P1'', role = Role_Member\<rparr>"
    by (simp add: db1_def u2_def)
  have input: "(api_input ''P1'')\<lparr>apiCreate_input.projectId := ''P2''\<rparr> = api_input ''P2''"
    by (simp add: api_input_def)
  have "\<not> project_member db1 (User.id u1) ''P2''"
    by code_simp
  moreover have "project_role db1 (User.id u2) ''P2'' Role_Owner"
    by code_simp
  ultimately show ?thesis
    using apiCreate_permission_ignores_project [OF valid row1, of "''A2''" "''P2''"]
      apiCreate_permission_ignores_project [OF valid row2, of "''A2''" "''P2''"] input
    by simp
qed

text \<open>
  C2, as the spec words it, fails twice. A caller whose only membership has role Member is
  told \<^verbatim>\<open>Permission denied\<close>, which is not the not-found outcome. And the owner of the
  target project \<open>P2\<close> is denied, because the row read first is the Member row on
  \<open>P1\<close>.
\<close>

theorem apiCreate_member_only_and_misplaced_owner:
  "apiCreate_schema enums (api_input ''P1'') \<and>
   roles_of db1 (User.id u4) = [Role_Member] \<and>
   apiCreate enums db1 ''A2'' u4 (api_input ''P1'') =
     (Inl (Error ''Permission denied''), tick db1) \<and>
   \<not> NotFoundOrDenied (Error ''Permission denied'') \<and>
   apiCreate_schema enums (api_input ''P2'') \<and>
   project_role db1 (User.id u2) ''P2'' Role_Owner \<and>
   apiCreate enums db1 ''A2'' u2 (api_input ''P2'') =
     (Inl (Error ''Permission denied''), tick db1)"
  by code_simp

text \<open>
  C2, amended. With a well-formed input, \<^verbatim>\<open>apiCreate\<close> called by an identity with no
  project member row ends with \<^verbatim>\<open>Project not found\<close>, the not-found outcome; called by
  an identity whose project member rows all have role Member it ends with
  \<^verbatim>\<open>Permission denied\<close>, a different error; called by an Owner or Maintainer of the
  target project all of whose project member rows have role Owner or Maintainer it creates
  the API under the target project.
\<close>

theorem apiCreate_outcomes_by_membership:
  assumes "apiCreate_schema E input"
  shows "(roles_of db (User.id user) = [] \<longrightarrow>
            apiCreate E db newId user input = (Inl (Error ''Project not found''), tick db) \<and>
            NotFoundOrDenied (Error ''Project not found'')) \<and>
         (roles_of db (User.id user) \<noteq> [] \<and>
          set (roles_of db (User.id user)) \<subseteq> {Role_Member} \<longrightarrow>
            apiCreate E db newId user input = (Inl (Error ''Permission denied''), tick db) \<and>
            \<not> NotFoundOrDenied (Error ''Permission denied'')) \<and>
         ((project_role db (User.id user) (apiCreate_input.projectId input) Role_Owner \<or>
           project_role db (User.id user) (apiCreate_input.projectId input) Role_Maintainer) \<and>
          set (roles_of db (User.id user)) \<subseteq> {Role_Owner, Role_Maintainer} \<longrightarrow>
            (\<exists>a db'. apiCreate E db newId user input = (Inr a, db') \<and>
                      Api.projectId a = apiCreate_input.projectId input \<and>
                      apis db' = apis db @ [a]))"
proof -
  let ?mine = "\<lambda>m. ProjectMember.userId m = User.id user"
  have none: "apiCreate E db newId user input = (Inl (Error ''Project not found''), tick db) \<and>
              NotFoundOrDenied (Error ''Project not found'')"
    if "roles_of db (User.id user) = []"
  proof -
    from that have "\<not> list_ex ?mine (projectMembers db)"
      by (simp add: roles_of_Nil)
    from apiCreate_no_member_row [OF assms this] show ?thesis
      by (simp add: NotFoundOrDenied_def)
  qed
  have members: "apiCreate E db newId user input = (Inl (Error ''Permission denied''), tick db) \<and>
                 \<not> NotFoundOrDenied (Error ''Permission denied'')"
    if "roles_of db (User.id user) \<noteq> []"
      and "set (roles_of db (User.id user)) \<subseteq> {Role_Member}"
  proof -
    from roles_of_find [OF that(1)] obtain m
      where m: "find ?mine (projectMembers db) = Some m"
        and "ProjectMember.role m \<in> set (roles_of db (User.id user))"
      by blast
    with that(2) have "ProjectMember.role m = Role_Member"
      by blast
    then have "\<not> role_includes (ProjectMember.role m)"
      by (simp add: role_includes_iff Role_Member_def Role_Owner_def Role_Maintainer_def)
    with apiCreate_row_denied [OF assms m] show ?thesis
      by (simp add: NotFoundOrDenied_def)
  qed
  have owners: "\<exists>a db'. apiCreate E db newId user input = (Inr a, db') \<and>
                      Api.projectId a = apiCreate_input.projectId input \<and>
                      apis db' = apis db @ [a]"
    if "project_role db (User.id user) (apiCreate_input.projectId input) Role_Owner \<or>
        project_role db (User.id user) (apiCreate_input.projectId input) Role_Maintainer"
      and "set (roles_of db (User.id user)) \<subseteq> {Role_Owner, Role_Maintainer}"
  proof -
    from that(1) have "list_ex ?mine (projectMembers db)"
      by (auto simp: project_role_def list_ex_iff)
    then have "roles_of db (User.id user) \<noteq> []"
      by (simp add: roles_of_Nil)
    from roles_of_find [OF this] obtain m
      where m: "find ?mine (projectMembers db) = Some m"
        and "ProjectMember.role m \<in> set (roles_of db (User.id user))"
      by blast
    with that(2) have "role_includes (ProjectMember.role m)"
      unfolding role_includes_iff by blast
    with apiCreate_row_allowed [OF assms m] show ?thesis
      by (simp add: api_data_def)
  qed
  from none members owners show ?thesis
    by blast
qed

theorem apiCreate_outcomes_by_membership_witness:
  "apiCreate enums db1 ''A2'' u3 (api_input ''P1'') =
     (Inl (Error ''Project not found''), tick db1) \<and>
   apiCreate enums db1 ''A2'' u4 (api_input ''P1'') =
     (Inl (Error ''Permission denied''), tick db1) \<and>
   (\<exists>a db'. apiCreate enums db1 ''A2'' u1 (api_input ''P1'') = (Inr a, db') \<and>
             Api.projectId a = ''P1'' \<and> apis db' = apis db1 @ [a])"
proof -
  have valid: "apiCreate_schema enums (api_input ''P1'')"
    by code_simp
  have "roles_of db1 (User.id u3) = []"
    by code_simp
  moreover have "roles_of db1 (User.id u4) \<noteq> []"
    by code_simp
  moreover have "set (roles_of db1 (User.id u4)) \<subseteq> {Role_Member}"
    by (simp add: roles_of_def db1_def u4_def)
  moreover have "project_role db1 (User.id u1) (apiCreate_input.projectId (api_input ''P1''))
                   Role_Owner"
    by code_simp
  moreover have "set (roles_of db1 (User.id u1)) \<subseteq> {Role_Owner, Role_Maintainer}"
    by (simp add: roles_of_def db1_def u1_def)
  moreover have "apiCreate_input.projectId (api_input ''P1'') = ''P1''"
    by (simp add: api_input_def)
  ultimately show ?thesis
    using apiCreate_outcomes_by_membership [OF valid, of db1 u3 "''A2''"]
      apiCreate_outcomes_by_membership [OF valid, of db1 u4 "''A2''"]
      apiCreate_outcomes_by_membership [OF valid, of db1 u1 "''A2''"]
    by simp
qed

subsection \<open>What a denied caller learns\<close>

lemma projectShow_not_found:
  assumes "\<not> project_exists db pid \<or> \<not> project_member db (User.id user) pid"
  shows "projectShow db user \<lparr>id_input.id = pid\<rparr> = (Inl (Error ''Project not found''), tick db)"
proof -
  let ?w = "\<lambda>p. Project.id p = pid \<and>
                 project_members_some db (\<lambda>m. ProjectMember.userId m = User.id user) p"
  from assms have "\<not> list_ex ?w (projects db)"
    by (auto simp: project_exists_def project_member_def project_members_some_def list_ex_iff)
  then have "find ?w (projects db) = None"
    by (simp add: find_None_list_ex)
  then show ?thesis
    by (simp add: projectShow_def project_findFirst_def)
qed

lemma teamShow_not_found:
  assumes "\<not> team_exists db tid \<or> \<not> team_member db (User.id user) tid"
  shows "teamShow db user \<lparr>id_input.id = tid\<rparr> = (Inl (Error ''Project not found''), tick db)"
proof -
  let ?w = "\<lambda>t. Team.id t = tid \<and>
                 team_members_some db (\<lambda>m. TeamMember.userId m = User.id user) t"
  from assms have "\<not> list_ex ?w (teams db)"
    by (auto simp: team_exists_def team_member_def team_members_some_def list_ex_iff)
  then have "find ?w (teams db) = None"
    by (simp add: find_None_list_ex)
  then show ?thesis
    by (simp add: teamShow_def team_findFirst_def)
qed

lemma owner_filter_None:
  assumes "\<not> project_exists db pid \<or> \<not> project_role db uid pid Role_Owner"
  shows "find (\<lambda>p. Project.id p = pid \<and>
                 project_members_some db
                   (\<lambda>m. ProjectMember.userId m = uid \<and> ProjectMember.role m = Role_Owner) p)
           (projects db) = None"
proof -
  from assms have "\<not> list_ex (\<lambda>p. Project.id p = pid \<and>
                 project_members_some db
                   (\<lambda>m. ProjectMember.userId m = uid \<and> ProjectMember.role m = Role_Owner) p)
           (projects db)"
    by (auto simp: project_exists_def project_role_def project_members_some_def list_ex_iff)
  then show ?thesis
    by (simp add: find_None_list_ex)
qed

lemma projectUpdate_not_found:
  assumes "projectUpdate_schema ui"
    and "\<not> project_exists db (projectUpdate_input.id ui) \<or>
         \<not> project_role db (User.id user) (projectUpdate_input.id ui) Role_Owner"
  shows "projectUpdate db user ui = (Inl PrismaRecordNotFound, tick db)"
  using assms(1) owner_filter_None [OF assms(2)]
  by (simp add: projectUpdate_def project_update_def)

lemma projectDelete_not_found:
  assumes "\<not> project_exists db (id_input.id di) \<or>
           \<not> project_role db (User.id user) (id_input.id di) Role_Owner"
  shows "projectDelete db user di = (Inl PrismaRecordNotFound, tick db)"
  using owner_filter_None [OF assms]
  by (simp add: projectDelete_def project_delete_def)

text \<open>
  C5, as the spec words it, fails for \<^verbatim>\<open>apiCreate\<close>: where project \<open>P1\<close> does not
  exist \<open>U4\<close> is told \<^verbatim>\<open>Project not found\<close>, where it exists and \<open>U4\<close> is a plain
  member \<open>U4\<close> is told \<^verbatim>\<open>Permission denied\<close>.
\<close>

theorem apiCreate_two_denials:
  "\<not> project_exists db0 ''P1'' \<and>
   apiCreate enums db0 ''A2'' u4 (api_input ''P1'') =
     (Inl (Error ''Project not found''), tick db0) \<and>
   project_exists db1 ''P1'' \<and>
   \<not> project_role db1 (User.id u4) ''P1'' Role_Owner \<and>
   \<not> project_role db1 (User.id u4) ''P1'' Role_Maintainer \<and>
   apiCreate enums db1 ''A2'' u4 (api_input ''P1'') =
     (Inl (Error ''Permission denied''), tick db1) \<and>
   thrown (apiCreate enums db0 ''A2'' u4 (api_input ''P1'')) \<noteq>
   thrown (apiCreate enums db1 ''A2'' u4 (api_input ''P1''))"
  by code_simp

text \<open>
  C5, amended. Each of \<^verbatim>\<open>projectShow\<close>, \<^verbatim>\<open>teamShow\<close>, \<^verbatim>\<open>projectUpdate\<close> and
  \<^verbatim>\<open>projectDelete\<close> ends with one and the same not-found error in a store where the
  resource does not exist and in a store where it exists and the caller lacks what the
  procedure asks for: a membership for the two shows, an Owner row for update and delete.
  The two stores of one procedure are any two stores of that kind. \<^verbatim>\<open>apiCreate\<close> has
  two denials: \<^verbatim>\<open>Project not found\<close> for a caller with no project member row,
  \<^verbatim>\<open>Permission denied\<close> when the row read has a role other than Owner and Maintainer.
\<close>

theorem denials_agree_except_apiCreate:
  "(\<not> project_exists dbA pid \<and>
    project_exists dbB pid \<and> \<not> project_member dbB (User.id user) pid \<longrightarrow>
      thrown (projectShow dbA user \<lparr>id_input.id = pid\<rparr>) = Some (Error ''Project not found'') \<and>
      thrown (projectShow dbB user \<lparr>id_input.id = pid\<rparr>) = Some (Error ''Project not found'')) \<and>
   (\<not> team_exists tA tid \<and>
    team_exists tB tid \<and> \<not> team_member tB (User.id user) tid \<longrightarrow>
      thrown (teamShow tA user \<lparr>id_input.id = tid\<rparr>) = Some (Error ''Project not found'') \<and>
      thrown (teamShow tB user \<lparr>id_input.id = tid\<rparr>) = Some (Error ''Project not found'')) \<and>
   (projectUpdate_schema ui \<and>
    \<not> project_exists uA (projectUpdate_input.id ui) \<and>
    project_exists uB (projectUpdate_input.id ui) \<and>
    \<not> project_role uB (User.id user) (projectUpdate_input.id ui) Role_Owner \<longrightarrow>
      thrown (projectUpdate uA user ui) = Some PrismaRecordNotFound \<and>
      thrown (projectUpdate uB user ui) = Some PrismaRecordNotFound) \<and>
   (\<not> project_exists dA (id_input.id di) \<and>
    project_exists dB (id_input.id di) \<and>
    \<not> project_role dB (User.id user) (id_input.id di) Role_Owner \<longrightarrow>
      thrown (projectDelete dA user di) = Some PrismaRecordNotFound \<and>
      thrown (projectDelete dB user di) = Some PrismaRecordNotFound) \<and>
   NotFoundOrDenied (Error ''Project not found'') \<and> NotFoundOrDenied PrismaRecordNotFound \<and>
   (apiCreate_schema E ai \<and> roles_of aA (User.id user) = [] \<longrightarrow>
      thrown (apiCreate E aA newId user ai) = Some (Error ''Project not found'')) \<and>
   (apiCreate_schema E ai \<and>
    find (\<lambda>m. ProjectMember.userId m = User.id user) (projectMembers aB) = Some m \<and>
    \<not> role_includes (ProjectMember.role m) \<longrightarrow>
      thrown (apiCreate E aB newId user ai) = Some (Error ''Permission denied''))"
proof -
  have projects: "thrown (projectShow dbA user \<lparr>id_input.id = pid\<rparr>) = Some (Error ''Project not found'') \<and>
      thrown (projectShow dbB user \<lparr>id_input.id = pid\<rparr>) = Some (Error ''Project not found'')"
    if "\<not> project_exists dbA pid" and "\<not> project_member dbB (User.id user) pid"
    using that by (simp add: projectShow_not_found thrown_def)
  have teams: "thrown (teamShow tA user \<lparr>id_input.id = tid\<rparr>) = Some (Error ''Project not found'') \<and>
      thrown (teamShow tB user \<lparr>id_input.id = tid\<rparr>) = Some (Error ''Project not found'')"
    if "\<not> team_exists tA tid" and "\<not> team_member tB (User.id user) tid"
    using that by (simp add: teamShow_not_found thrown_def)
  have updates: "thrown (projectUpdate uA user ui) = Some PrismaRecordNotFound \<and>
      thrown (projectUpdate uB user ui) = Some PrismaRecordNotFound"
    if "projectUpdate_schema ui" and "\<not> project_exists uA (projectUpdate_input.id ui)"
      and "\<not> project_role uB (User.id user) (projectUpdate_input.id ui) Role_Owner"
    using that by (simp add: projectUpdate_not_found thrown_def)
  have deletes: "thrown (projectDelete dA user di) = Some PrismaRecordNotFound \<and>
      thrown (projectDelete dB user di) = Some PrismaRecordNotFound"
    if "\<not> project_exists dA (id_input.id di)"
      and "\<not> project_role dB (User.id user) (id_input.id di) Role_Owner"
    using that by (simp add: projectDelete_not_found thrown_def)
  have nf: "NotFoundOrDenied (Error ''Project not found'') \<and> NotFoundOrDenied PrismaRecordNotFound"
    by (simp add: NotFoundOrDenied_def)
  have api_none: "thrown (apiCreate E aA newId user ai) = Some (Error ''Project not found'')"
    if "apiCreate_schema E ai" and "roles_of aA (User.id user) = []"
  proof -
    from that(2) have "\<not> list_ex (\<lambda>m. ProjectMember.userId m = User.id user) (projectMembers aA)"
      by (simp add: roles_of_Nil)
    with that(1) show ?thesis
      by (simp add: apiCreate_no_member_row thrown_def)
  qed
  have api_role: "thrown (apiCreate E aB newId user ai) = Some (Error ''Permission denied'')"
    if "apiCreate_schema E ai"
      and "find (\<lambda>m. ProjectMember.userId m = User.id user) (projectMembers aB) = Some m"
      and "\<not> role_includes (ProjectMember.role m)"
    using apiCreate_row_denied [OF that] by (simp add: thrown_def)
  from projects teams updates deletes nf api_none api_role show ?thesis
    by blast
qed

theorem denials_agree_except_apiCreate_witness:
  "thrown (projectShow db0 u4 \<lparr>id_input.id = ''P1''\<rparr>) = Some (Error ''Project not found'') \<and>
   thrown (projectShow db_solo u4 \<lparr>id_input.id = ''P1''\<rparr>) = Some (Error ''Project not found'') \<and>
   thrown (teamShow db0 u4 \<lparr>id_input.id = ''T1''\<rparr>) = Some (Error ''Project not found'') \<and>
   thrown (teamShow db1 u4 \<lparr>id_input.id = ''T1''\<rparr>) = Some (Error ''Project not found'') \<and>
   thrown (projectUpdate db0 u4
     \<lparr>projectUpdate_input.id = ''P1'', name = ''stout'', description = ''dark'',
      visibility = ''PUBLIC''\<rparr>) = Some PrismaRecordNotFound \<and>
   thrown (projectUpdate db1 u4
     \<lparr>projectUpdate_input.id = ''P1'', name = ''stout'', description = ''dark'',
      visibility = ''PUBLIC''\<rparr>) = Some PrismaRecordNotFound \<and>
   thrown (projectDelete db0 u4 \<lparr>id_input.id = ''P1''\<rparr>) = Some PrismaRecordNotFound \<and>
   thrown (projectDelete db1 u4 \<lparr>id_input.id = ''P1''\<rparr>) = Some PrismaRecordNotFound \<and>
   thrown (apiCreate enums db0 ''A2'' u4 (api_input ''P1'')) = Some (Error ''Project not found'') \<and>
   thrown (apiCreate enums db1 ''A2'' u4 (api_input ''P1'')) = Some (Error ''Permission denied'')"
proof -
  let ?ui = "\<lparr>projectUpdate_input.id = ''P1'', name = ''stout'', description = ''dark'',
              visibility = ''PUBLIC''\<rparr>"
  let ?di = "\<lparr>id_input.id = ''P1''\<rparr>"
  let ?m = "\<lparr>ProjectMember.userId = ''U4'', projectId = ''P1'', role = Role_Member\<rparr>"
  have 1: "\<not> project_exists db0 ''P1''" and 2: "project_exists db_solo ''P1''"
    and 3: "\<not> project_member db_solo (User.id u4) ''P1''"
    by code_simp+
  have 4: "\<not> team_exists db0 ''T1''" and 5: "team_exists db1 ''T1''"
    and 6: "\<not> team_member db1 (User.id u4) ''T1''"
    by code_simp+
  have 7: "projectUpdate_schema ?ui" and 8: "\<not> project_exists db0 (projectUpdate_input.id ?ui)"
    and 9: "project_exists db1 (projectUpdate_input.id ?ui)"
    and 10: "\<not> project_role db1 (User.id u4) (projectUpdate_input.id ?ui) Role_Owner"
    by code_simp+
  have 11: "\<not> project_exists db0 (id_input.id ?di)" and 12: "project_exists db1 (id_input.id ?di)"
    and 13: "\<not> project_role db1 (User.id u4) (id_input.id ?di) Role_Owner"
    by code_simp+
  have 14: "apiCreate_schema enums (api_input ''P1'')" and 15: "roles_of db0 (User.id u4) = []"
    by code_simp+
  have 16: "find (\<lambda>m. ProjectMember.userId m = User.id u4) (projectMembers db1) = Some ?m"
    by (simp add: db1_def u4_def)
  have 17: "\<not> role_includes (ProjectMember.role ?m)"
    by code_simp
  from denials_agree_except_apiCreate
    [where dbA = db0 and dbB = db_solo and pid = "''P1''" and user = u4
       and tA = db0 and tB = db1 and tid = "''T1''"
       and ui = ?ui and uA = db0 and uB = db1
       and di = ?di and dA = db0 and dB = db1
       and E = enums and ai = "api_input ''P1''" and newId = "''A2''"
       and aA = db0 and aB = db1 and m = ?m]
    1 2 3 4 5 6 7 8 9 10 11 12 13 14 15 16 17
  show ?thesis
    by simp
qed

end
